theory Spec2Isabelle
  imports Complex_Main "HOL-Library.Word"
begin

section \<open>The order form of \<open>src/components/orders/order-form.tsx\<close>\<close>

text \<open>
  The component \<open>OrderForm\<close> keeps a draft order in six state hooks, changes the list of
  line items through three handlers, derives a total from that list and, on submit, issues
  two inserts against a data store and a route transition. The theory embeds the handlers
  as functions on the hook values and the submit handler as the sequence of actions it
  performs, with the answers of the data store as a parameter.
\<close>

subsection \<open>Values\<close>

text \<open>
  A JavaScript string is a sequence of UTF-16 code units. \<open>str\<close> reads an ASCII literal of
  the source as such a sequence.
\<close>

type_synonym jsstring = "16 word list"

definition str :: "string \<Rightarrow> jsstring" where
  "str s = map (\<lambda>c. of_nat (of_char c)) s"

subsection \<open>Numbers\<close>

text \<open>
  A JavaScript \<open>number\<close> is an IEEE 754 binary64 value: a finite value, an infinity or
  \<open>NaN\<close>. \<open>Finite m e\<close> is the value \<open>m\<close> times 2 to the power \<open>e\<close>; a double is written
  with an odd \<open>m\<close>, or as \<open>Finite 0 0\<close>, so that equal values are written alike. Zero has no
  sign here: the component adds, multiplies and compares numbers and hands them to the
  store as JSON, and none of these tells \<open>-0\<close> from \<open>0\<close>.
\<close>

datatype number = Finite int int | PosInfinity | NegInfinity | NaN

text \<open>
  The number of binary digits of a positive integer, and the number of zero digits at its
  end.
\<close>

function bit_length :: "int \<Rightarrow> int" where
  "bit_length m = (if m \<le> 0 then 0 else 1 + bit_length (m div 2))"
  by pat_completeness auto
termination
  by (relation "measure nat") auto

declare bit_length.simps [simp del]

function trailing_zeros :: "int \<Rightarrow> nat" where
  "trailing_zeros m = (if m \<le> 0 \<or> odd m then 0 else Suc (trailing_zeros (m div 2)))"
  by pat_completeness auto
termination
  by (relation "measure nat") auto

declare trailing_zeros.simps [simp del]

text \<open>The same value with an odd first component.\<close>

definition normalize_double :: "int \<Rightarrow> int \<Rightarrow> number" where
  "normalize_double m e =
     (if m = 0 then Finite 0 0
      else let k = trailing_zeros \<bar>m\<bar> in Finite (m div 2 ^ k) (e + int k))"

text \<open>
  The double nearest to \<open>m\<close> times 2 to the power \<open>e\<close>, a tie going to the even
  significand. With \<open>n\<close> digits in \<open>m\<close> the last place of the result has the exponent
  \<open>u\<close>: 53 digits are kept, and no place is below 2 to the power -1074. When \<open>e\<close> is below
  \<open>u\<close> the digits below \<open>u\<close> are cut off and the rest is rounded up when they are more than
  half a unit of the last place, or just half of it and the rest is odd. A magnitude of 2
  to the power 1024 or more after rounding is an infinity.
\<close>

definition round_double :: "int \<Rightarrow> int \<Rightarrow> number" where
  "round_double m e =
     (if m = 0 then Finite 0 0
      else
        let n = bit_length \<bar>m\<bar>;
            u = max (n + e - 53) (- 1074);
            q = (if u \<le> e then \<bar>m\<bar>
                 else let k = nat (u - e);
                          d = \<bar>m\<bar> div 2 ^ k;
                          r = \<bar>m\<bar> mod 2 ^ k;
                          half = 2 ^ (k - 1)
                      in if half < r \<or> (r = half \<and> odd d) then d + 1 else d);
            x = (if u \<le> e then e else u)
        in if 1024 < bit_length q + x
           then (if 0 < m then PosInfinity else NegInfinity)
           else normalize_double (sgn m * q) x)"

text \<open>An integer literal as a number.\<close>

definition num :: "int \<Rightarrow> number" where
  "num k = round_double k 0"

text \<open>
  \<open>0\<close>, \<open>1\<close>, \<open>+\<close>, \<open>*\<close>, \<open><\<close> and \<open><=\<close> of JavaScript on numbers: the exact result of two
  finite values is rounded; \<open>NaN\<close> makes a sum or a product \<open>NaN\<close> and a comparison false;
  opposite infinities add to \<open>NaN\<close>, and zero times an infinity is \<open>NaN\<close>.
\<close>

instantiation number :: "{zero, one, plus, times, ord}"
begin

definition zero_number :: number where
  "zero_number = Finite 0 0"

definition one_number :: number where
  "one_number = Finite 1 0"

fun plus_number :: "number \<Rightarrow> number \<Rightarrow> number" where
  "Finite m1 e1 + Finite m2 e2 =
     (let e = min e1 e2 in round_double (m1 * 2 ^ nat (e1 - e) + m2 * 2 ^ nat (e2 - e)) e)"
| "NaN + _ = NaN"
| "_ + NaN = NaN"
| "PosInfinity + NegInfinity = NaN"
| "NegInfinity + PosInfinity = NaN"
| "PosInfinity + _ = PosInfinity"
| "NegInfinity + _ = NegInfinity"
| "_ + PosInfinity = PosInfinity"
| "_ + NegInfinity = NegInfinity"

fun times_number :: "number \<Rightarrow> number \<Rightarrow> number" where
  "Finite m1 e1 * Finite m2 e2 = round_double (m1 * m2) (e1 + e2)"
| "NaN * _ = NaN"
| "_ * NaN = NaN"
| "Finite m e * PosInfinity =
     (if m = 0 then NaN else if 0 < m then PosInfinity else NegInfinity)"
| "Finite m e * NegInfinity =
     (if m = 0 then NaN else if 0 < m then NegInfinity else PosInfinity)"
| "PosInfinity * Finite m e =
     (if m = 0 then NaN else if 0 < m then PosInfinity else NegInfinity)"
| "NegInfinity * Finite m e =
     (if m = 0 then NaN else if 0 < m then NegInfinity else PosInfinity)"
| "PosInfinity * PosInfinity = PosInfinity"
| "PosInfinity * NegInfinity = NegInfinity"
| "NegInfinity * PosInfinity = NegInfinity"
| "NegInfinity * NegInfinity = PosInfinity"

fun less_number :: "number \<Rightarrow> number \<Rightarrow> bool" where
  "Finite m1 e1 < Finite m2 e2 =
     (let e = min e1 e2 in m1 * 2 ^ nat (e1 - e) < m2 * 2 ^ nat (e2 - e))"
| "NaN < _ = False"
| "_ < NaN = False"
| "_ < NegInfinity = False"
| "PosInfinity < _ = False"
| "NegInfinity < _ = True"
| "_ < PosInfinity = True"

fun less_eq_number :: "number \<Rightarrow> number \<Rightarrow> bool" where
  "Finite m1 e1 \<le> Finite m2 e2 =
     (let e = min e1 e2 in m1 * 2 ^ nat (e1 - e) \<le> m2 * 2 ^ nat (e2 - e))"
| "NaN \<le> _ = False"
| "_ \<le> NaN = False"
| "NegInfinity \<le> _ = True"
| "_ \<le> PosInfinity = True"
| "_ \<le> NegInfinity = False"
| "PosInfinity \<le> _ = False"

instance ..

end

text \<open>
  A number of the datatype is a double when it is an infinity, \<open>NaN\<close>, or a finite value
  that rounding leaves as it is written. The real value of a finite number.
\<close>

fun is_double :: "number \<Rightarrow> bool" where
  "is_double (Finite m e) = (round_double m e = Finite m e)"
| "is_double _ = True"


fun value_of :: "number \<Rightarrow> real" where
  "value_of (Finite m e) = of_int m * 2 powi e"
| "value_of _ = 0"

subsection \<open>Values of two types\<close>

text \<open>\<open>string | number\<close>, the type of the third argument of \<open>updateOrderItem\<close> (line 60).\<close>

datatype jsvalue = String jsstring | Number number

subsection \<open>Data model (lines 18--41)\<close>

text \<open>
  \<open>interface Product\<close>, lines 24--30. The field \<open>id\<close> is named \<open>id_product\<close> here, HOL's
  \<open>id\<close> being the identity function. \<open>interface Customer\<close> (lines 18--22) is read by the
  rendering of the customer selector only and is not embedded.
\<close>

record Product =
  id_product :: jsstring
  name :: jsstring
  price :: number
  stock_quantity :: number
  sku :: "jsstring option"

text \<open>\<open>interface OrderItem\<close>, lines 32--36.\<close>

record OrderItem =
  productId :: jsstring
  quantity :: number
  unitPrice :: number

text \<open>\<open>keyof OrderItem\<close>, the type of the second argument of \<open>updateOrderItem\<close>.\<close>

datatype field = ProductId | Quantity | UnitPrice

text \<open>
  The six \<open>useState\<close> hooks of lines 44--49, one field each (the hook \<open>notes\<close> is named
  \<open>notes_state\<close>, the word being reserved in Isabelle). A handler reads the values of the
  render it was created in, so it is a function of one such record.
\<close>

record form_state =
  customerId :: jsstring
  paymentMethod :: jsstring
  notes_state :: jsstring
  orderItems :: "OrderItem list"
  isSubmitting :: bool
  error :: "jsstring option"

text \<open>The initial values of the hooks.\<close>

definition initial :: form_state where
  "initial = \<lparr>customerId = str ''walk-in'', paymentMethod = str ''cash'', notes_state = [],
     orderItems = [], isSubmitting = False, error = None\<rparr>"

subsection \<open>The item handlers (lines 52--79)\<close>

text \<open>Lines 52--54: a new item with no product, quantity 1 and price 0 is appended.\<close>

definition addOrderItem :: "form_state \<Rightarrow> form_state" where
  "addOrderItem st =
     st\<lparr>orderItems := orderItems st @ [\<lparr>productId = [], quantity = 1, unitPrice = 0\<rparr>]\<rparr>"

text \<open>
  Lines 56--58: \<open>orderItems.filter((_, i) => i !== index)\<close>. The callback sees every element
  with its position; an index that is no position of the list removes nothing. The index
  is a natural number, as every call site passes the position of a rendered item
  (line 234).
\<close>

definition removeOrderItem :: "form_state \<Rightarrow> nat \<Rightarrow> form_state" where
  "removeOrderItem st index =
     st\<lparr>orderItems := map snd (filter (\<lambda>(i, _). i \<noteq> index) (enumerate 0 (orderItems st)))\<rparr>"

text \<open>
  \<open>{ ...item, [field]: value }\<close> of line 72. The result is an \<open>OrderItem\<close> when the value has
  the type of the field; a string stored as quantity or price, or a number stored as
  product id, gives an object that is no \<open>OrderItem\<close>, and the model stops there with
  \<open>None\<close>. The three call sites (lines 192, 216, 225) pass a value of the field's type.
\<close>

fun set_field :: "OrderItem \<Rightarrow> field \<Rightarrow> jsvalue \<Rightarrow> OrderItem option" where
  "set_field item ProductId (String s) = Some (item\<lparr>productId := s\<rparr>)"
| "set_field item Quantity (Number n) = Some (item\<lparr>quantity := n\<rparr>)"
| "set_field item UnitPrice (Number n) = Some (item\<lparr>unitPrice := n\<rparr>)"
| "set_field item _ _ = None"

text \<open>
  Lines 60--75. \<open>products.find\<close> returns the first product with the given id. A write
  \<open>updatedItems[index] = ...\<close> at an index that is no position of the list makes JavaScript
  grow the array (with holes) and store an object that lacks the item's other fields; the
  result is no \<open>OrderItem[]\<close> and the model stops there with \<open>None\<close>. When no product has
  the given id nothing is written and the copy of the list is stored as it is, whatever
  the index.
\<close>

definition updateOrderItem ::
  "Product list \<Rightarrow> form_state \<Rightarrow> nat \<Rightarrow> field \<Rightarrow> jsvalue \<Rightarrow> form_state option" where
  "updateOrderItem products st index fld val =
     (let updatedItems = orderItems st in
      case (fld, val) of
        (ProductId, String v) \<Rightarrow>
          (case find (\<lambda>p. id_product p = v) products of
             Some product \<Rightarrow>
               if index < length updatedItems
               then Some (st\<lparr>orderItems := updatedItems[index :=
                      (updatedItems ! index)\<lparr>productId := v, unitPrice := price product\<rparr>]\<rparr>)
               else None
           | None \<Rightarrow> Some (st\<lparr>orderItems := updatedItems\<rparr>))
      | _ \<Rightarrow>
          if index < length updatedItems
          then (case set_field (updatedItems ! index) fld val of
                  Some item \<Rightarrow> Some (st\<lparr>orderItems := updatedItems[index := item]\<rparr>)
                | None \<Rightarrow> None)
          else None)"

text \<open>
  Lines 77--79: \<open>reduce\<close> from 0, left to right, each product and each sum being a double
  operation.
\<close>

definition calculateTotal :: "form_state \<Rightarrow> number" where
  "calculateTotal st =
     foldl (\<lambda>total item. total + quantity item * unitPrice item) 0 (orderItems st)"

subsection \<open>Built-in operations used by the submit handler\<close>

text \<open>
  \<open>String.prototype.trim\<close> removes the white space and line terminators of ECMAScript from
  both ends: TAB, LF, VT, FF, CR, SP, NBSP, U+1680, U+2000 to U+200A, U+2028, U+2029,
  U+202F, U+205F, U+3000 and U+FEFF. Each of them is one code unit.
\<close>

definition is_white_space :: "16 word \<Rightarrow> bool" where
  "is_white_space c \<longleftrightarrow>
     c \<in> set [0x9, 0xA, 0xB, 0xC, 0xD, 0x20, 0xA0, 0x1680,
              0x2000, 0x2001, 0x2002, 0x2003, 0x2004, 0x2005, 0x2006, 0x2007, 0x2008,
              0x2009, 0x200A, 0x2028, 0x2029, 0x202F, 0x205F, 0x3000, 0xFEFF]"

definition trim :: "jsstring \<Rightarrow> jsstring" where
  "trim s = rev (dropWhile is_white_space (rev (dropWhile is_white_space s)))"

text \<open>\<open>s || null\<close> for a string \<open>s\<close>: the empty string is the only falsy string.\<close>

definition or_null :: "jsstring \<Rightarrow> jsstring option" where
  "or_null s = (if s = [] then None else Some s)"

subsection \<open>The data store and the actions of the submit handler\<close>

text \<open>
  The object of the \<open>orders\<close> insert (lines 96--102) and one object of the \<open>order_items\<close>
  insert (lines 109--115). \<open>null\<close> is \<open>None\<close>. The columns \<open>notes\<close> and \<open>quantity\<close> are named
  \<open>notes_col\<close> and \<open>quantity_col\<close>, apart from the state hook and the item field.
\<close>

record order_payload =
  customer_id :: "jsstring option"
  total_amount :: number
  status :: jsstring
  payment_method :: "jsstring option"
  notes_col :: "jsstring option"

record item_payload =
  order_id :: jsstring
  product_id :: jsstring
  quantity_col :: number
  unit_price :: number
  total_price :: number

text \<open>
  The created order as the handler reads it: its \<open>id\<close> (lines 110 and 121), taken to be a
  string. An error value as the handler reads it: its \<open>message\<close>, which may be absent.
\<close>

record order_row =
  id_order :: jsstring

record js_error =
  message :: "jsstring option"

text \<open>
  What an awaited store call gives: the promise is rejected, or it is fulfilled with the
  client's answer \<open>{ data, error }\<close>, which is a failure carrying an error or a success
  carrying the data (the union type of the client's single-row answer).
\<close>

datatype 'a response = Failure js_error | Success 'a

datatype 'a awaited = Rejected js_error | Fulfilled "'a response"

record store =
  insert_order :: "order_payload \<Rightarrow> order_row awaited"
  insert_order_items :: "item_payload list \<Rightarrow> unit awaited"

text \<open>
  The actions of \<open>handleSubmit\<close> that are visible outside it, in the order of the statements:
  the call on the event (line 82), the state setters, the creation of the store client
  (line 92), the two store calls (lines 104 and 117) and the route transition (line 121).
  The source calls nothing else on the store client or the router.
\<close>

datatype effect =
    PreventDefault
  | SetIsSubmitting bool
  | SetError "jsstring option"
  | CreateClient
  | InsertOrder order_payload
  | InsertOrderItems "item_payload list"
  | RouterPush jsstring

text \<open>A store call is one of the two inserts.\<close>

fun is_store_call :: "effect \<Rightarrow> bool" where
  "is_store_call (InsertOrder _) = True"
| "is_store_call (InsertOrderItems _) = True"
| "is_store_call _ = False"

fun is_navigation :: "effect \<Rightarrow> bool" where
  "is_navigation (RouterPush _) = True"
| "is_navigation _ = False"

text \<open>The state after a sequence of actions: only the two setters change a hook.\<close>

fun apply_effect :: "form_state \<Rightarrow> effect \<Rightarrow> form_state" where
  "apply_effect st (SetIsSubmitting b) = st\<lparr>isSubmitting := b\<rparr>"
| "apply_effect st (SetError e) = st\<lparr>error := e\<rparr>"
| "apply_effect st _ = st"

definition state_after :: "form_state \<Rightarrow> effect list \<Rightarrow> form_state" where
  "state_after st effs = foldl apply_effect st effs"

subsection \<open>The submit handler (lines 81--127)\<close>

text \<open>Lines 96--102.\<close>

definition orderData :: "form_state \<Rightarrow> order_payload" where
  "orderData st =
     \<lparr>customer_id = (if customerId st = str ''walk-in'' then None else Some (customerId st)),
      total_amount = calculateTotal st,
      status = str ''pending'',
      payment_method = or_null (paymentMethod st),
      notes_col = or_null (trim (notes_state st))\<rparr>"

text \<open>Lines 109--115.\<close>

definition orderItemsData :: "order_row \<Rightarrow> form_state \<Rightarrow> item_payload list" where
  "orderItemsData order st =
     map (\<lambda>item. \<lparr>order_id = id_order order,
                  product_id = productId item,
                  quantity_col = quantity item,
                  unit_price = unitPrice item,
                  total_price = quantity item * unitPrice item\<rparr>) (orderItems st)"

text \<open>Line 123: \<open>error.message || "An error occurred"\<close>.\<close>

definition catch_message :: "js_error \<Rightarrow> jsstring" where
  "catch_message e =
     (case message e of
        None \<Rightarrow> str ''An error occurred''
      | Some m \<Rightarrow> if m = [] then str ''An error occurred'' else m)"

text \<open>
  Lines 117--121, with the \<open>catch\<close> of line 123 for a rejected call and for the thrown
  \<open>itemsError\<close>.
\<close>

definition insert_items_step :: "store \<Rightarrow> order_row \<Rightarrow> form_state \<Rightarrow> effect list" where
  "insert_items_step db order st =
     (let orderItemsData = orderItemsData order st in
      InsertOrderItems orderItemsData #
      (case insert_order_items db orderItemsData of
         Rejected e \<Rightarrow> [SetError (Some (catch_message e))]
       | Fulfilled (Failure itemsError) \<Rightarrow> [SetError (Some (catch_message itemsError))]
       | Fulfilled (Success _) \<Rightarrow> [RouterPush (str ''/dashboard/orders/'' @ id_order order)]))"

text \<open>The \<open>try\<close> block, lines 94--123.\<close>

definition try_block :: "store \<Rightarrow> form_state \<Rightarrow> effect list" where
  "try_block db st =
     (let orderData = orderData st in
      InsertOrder orderData #
      (case insert_order db orderData of
         Rejected e \<Rightarrow> [SetError (Some (catch_message e))]
       | Fulfilled (Failure orderError) \<Rightarrow> [SetError (Some (catch_message orderError))]
       | Fulfilled (Success order) \<Rightarrow> insert_items_step db order st))"

text \<open>
  Lines 81--127. The guard of lines 86--90 returns before the client is created; the
  \<open>finally\<close> of line 125 runs after every way out of the \<open>try\<close> block.
\<close>

definition handleSubmit :: "store \<Rightarrow> form_state \<Rightarrow> effect list" where
  "handleSubmit db st =
     [PreventDefault, SetIsSubmitting True, SetError None] @
     (if length (orderItems st) = 0
      then [SetError (Some (str ''Please add at least one item to the order'')),
            SetIsSubmitting False]
      else [CreateClient] @ try_block db st @ [SetIsSubmitting False])"

subsection \<open>The total as a call, and the sums it is compared with\<close>




text \<open>The sum of quantity times unit price over the items in exact arithmetic.\<close>

definition exact_total :: "form_state \<Rightarrow> real" where
  "exact_total st = (\<Sum>item\<leftarrow>orderItems st. value_of (quantity item) * value_of (unitPrice item))"




subsection \<open>What the rendering derives from the state\<close>

text \<open>
  Lines 185 and 206: the stock notice under the product selector of an item is rendered
  when the item's product is in the catalog and has less stock than the item asks for.
\<close>

definition stock_warning :: "Product list \<Rightarrow> OrderItem \<Rightarrow> bool" where
  "stock_warning products item =
     (case find (\<lambda>p. id_product p = productId item) products of
        Some product \<Rightarrow> stock_quantity product < quantity item
      | None \<Rightarrow> False)"

text \<open>Line 297: the \<open>disabled\<close> attribute of the submit button.\<close>

definition submit_disabled :: "form_state \<Rightarrow> bool" where
  "submit_disabled st \<longleftrightarrow> isSubmitting st \<or> length (orderItems st) = 0"

subsection \<open>Sequences of item operations\<close>

text \<open>
  One call of a handler of lines 52--75, and a sequence of such calls, each on the state
  the one before has stored. A call whose result is outside the model ends the sequence
  with \<open>None\<close>.
\<close>

datatype action = AddItem | RemoveItem nat | UpdateItem nat field jsvalue

fun apply_action :: "Product list \<Rightarrow> form_state \<Rightarrow> action \<Rightarrow> form_state option" where
  "apply_action products st AddItem = Some (addOrderItem st)"
| "apply_action products st (RemoveItem index) = Some (removeOrderItem st index)"
| "apply_action products st (UpdateItem index fld val) =
     updateOrderItem products st index fld val"

fun run_actions :: "Product list \<Rightarrow> form_state \<Rightarrow> action list \<Rightarrow> form_state option" where
  "run_actions products st [] = Some st"
| "run_actions products st (a # as) =
     (case apply_action products st a of
        None \<Rightarrow> None
      | Some st' \<Rightarrow> run_actions products st' as)"

text \<open>A product without its stock: what two catalogs that differ in stock only have in common.\<close>

definition forget_stock :: "Product \<Rightarrow> Product" where
  "forget_stock p = p\<lparr>stock_quantity := 0\<rparr>"

text \<open>
  A session of the form: from the initial state, a sequence of item operations under a
  catalog, then one submit against a store.
\<close>

definition submit_after :: "Product list \<Rightarrow> store \<Rightarrow> action list \<Rightarrow> effect list option" where
  "submit_after products db acts =
     map_option (handleSubmit db) (run_actions products initial acts)"

subsection \<open>Reading a sequence of actions\<close>

text \<open>The objects handed to the \<open>orders\<close> insert and to the \<open>order_items\<close> insert, in order.\<close>

fun order_payloads :: "effect list \<Rightarrow> order_payload list" where
  "order_payloads [] = []"
| "order_payloads (InsertOrder p # es) = p # order_payloads es"
| "order_payloads (_ # es) = order_payloads es"

fun item_payloads :: "effect list \<Rightarrow> item_payload list list" where
  "item_payloads [] = []"
| "item_payloads (InsertOrderItems ps # es) = ps # item_payloads es"
| "item_payloads (_ # es) = item_payloads es"

subsection \<open>A concrete catalog, draft and store\<close>

text \<open>
  Two products A (price 10, 3 in stock) and B (price 5, 10 in stock); the draft with two
  of A and one of B, and the handler calls that build it from the initial state.
\<close>

definition example_products :: "Product list" where
  "example_products =
     [\<lparr>id_product = str ''A'', name = str ''Product A'', price = num 10, stock_quantity = num 3,
       sku = None\<rparr>,
      \<lparr>id_product = str ''B'', name = str ''Product B'', price = num 5, stock_quantity = num 10,
       sku = Some (str ''SKU-B'')\<rparr>]"


definition example_items :: "OrderItem list" where
  "example_items =
     [\<lparr>productId = str ''A'', quantity = num 2, unitPrice = num 10\<rparr>,
      \<lparr>productId = str ''B'', quantity = 1, unitPrice = num 5\<rparr>]"

definition example_state :: form_state where
  "example_state = initial\<lparr>orderItems := example_items\<rparr>"

text \<open>A store that accepts both inserts and names the created order \<open>o1\<close>.\<close>

definition example_order :: order_row where
  "example_order = \<lparr>id_order = str ''o1''\<rparr>"

definition store_ok :: store where
  "store_ok = \<lparr>insert_order = (\<lambda>_. Fulfilled (Success example_order)),
                insert_order_items = (\<lambda>_. Fulfilled (Success ()))\<rparr>"

text \<open>
  A store whose \<open>orders\<close> insert fails with a message, and one that creates the order and
  whose \<open>order_items\<close> insert then fails with an error without a message.
\<close>

definition store_order_fails :: store where
  "store_order_fails =
     \<lparr>insert_order = (\<lambda>_. Fulfilled (Failure \<lparr>message = Some (str ''permission denied'')\<rparr>)),
      insert_order_items = (\<lambda>_. Fulfilled (Success ()))\<rparr>"

definition store_items_fail :: store where
  "store_items_fail =
     \<lparr>insert_order = (\<lambda>_. Fulfilled (Success example_order)),
      insert_order_items = (\<lambda>_. Rejected \<lparr>message = None\<rparr>)\<rparr>"

text \<open>
  The same catalog with 100 of each product in stock, and a draft that asks for 5 of A, of
  which the first catalog has 3.
\<close>

definition example_products_restocked :: "Product list" where
  "example_products_restocked = map (\<lambda>p. p\<lparr>stock_quantity := num 100\<rparr>) example_products"

definition example_actions_excess :: "action list" where
  "example_actions_excess =
     [AddItem, UpdateItem 0 ProductId (String (str ''A'')), UpdateItem 0 Quantity (Number (num 5))]"

definition example_item_excess :: OrderItem where
  "example_item_excess = \<lparr>productId = str ''A'', quantity = num 5, unitPrice = num 10\<rparr>"

text \<open>
  The double that \<open>parseFloat\<close> gives for the input \<open>0.1\<close>, and the draft of one item with
  quantity 3 at this price, with the handler calls that build it.
\<close>

definition tenth :: number where
  "tenth = Finite 3602879701896397 (- 55)"

definition example_actions_tenths :: "action list" where
  "example_actions_tenths =
     [AddItem, UpdateItem 0 Quantity (Number (num 3)), UpdateItem 0 UnitPrice (Number tenth)]"

definition example_state_tenths :: form_state where
  "example_state_tenths =
     initial\<lparr>orderItems := [\<lparr>productId = [], quantity = num 3, unitPrice = tenth\<rparr>]\<rparr>"

section \<open>Properties\<close>

subsection \<open>Removing an item\<close>

lemma filter_index_above:
  "k < n \<Longrightarrow> map snd (filter (\<lambda>(i, _). i \<noteq> k) (enumerate n xs)) = xs"
  by (induction xs arbitrary: n) auto

lemma filter_index_split:
  "n \<le> k \<Longrightarrow> map snd (filter (\<lambda>(i, _). i \<noteq> k) (enumerate n xs)) =
     take (k - n) xs @ drop (Suc (k - n)) xs"
proof (induction xs arbitrary: n)
  case Nil
  then show ?case by simp
next
  case (Cons x xs)
  show ?case
  proof (cases "n = k")
    case True
    then show ?thesis by (simp add: filter_index_above)
  next
    case False
    with Cons.prems have le: "Suc n \<le> k" by simp
    then have step: "k - n = Suc (k - Suc n)" by simp
    from Cons.IH [OF le] False show ?thesis
      by (simp add: step)
  qed
qed

lemma orderItems_removeOrderItem:
  "orderItems (removeOrderItem st index) =
     take index (orderItems st) @ drop (Suc index) (orderItems st)"
  using filter_index_split [of 0 index "orderItems st"]
  by (simp add: removeOrderItem_def)

text \<open>
  Claim C8. Removing the item at a position \<open>index\<close> of a list of \<open>n\<close> items gives the items
  before it followed by the items after it: a list of \<open>n - 1\<close> items, in which every item
  before \<open>index\<close> keeps its position and every item after it moves down by one.
\<close>

theorem removeOrderItem_keeps_others:
  assumes "index < length (orderItems st)"
  shows "orderItems (removeOrderItem st index) =
           take index (orderItems st) @ drop (Suc index) (orderItems st)
       \<and> length (orderItems (removeOrderItem st index)) = length (orderItems st) - 1
       \<and> (\<forall>j < index. orderItems (removeOrderItem st index) ! j = orderItems st ! j)
       \<and> (\<forall>j. index \<le> j \<and> j < length (orderItems st) - 1 \<longrightarrow>
             orderItems (removeOrderItem st index) ! j = orderItems st ! Suc j)"
proof -
  let ?xs = "orderItems st"
  have eq: "orderItems (removeOrderItem st index) = take index ?xs @ drop (Suc index) ?xs"
    by (rule orderItems_removeOrderItem)
  have len: "length (take index ?xs @ drop (Suc index) ?xs) = length ?xs - 1"
    using assms by simp
  have low: "\<forall>j < index. (take index ?xs @ drop (Suc index) ?xs) ! j = ?xs ! j"
    using assms by (simp add: nth_append)
  have high: "\<forall>j. index \<le> j \<and> j < length ?xs - 1 \<longrightarrow>
      (take index ?xs @ drop (Suc index) ?xs) ! j = ?xs ! Suc j"
    using assms by (auto simp add: nth_append min_def)
  from eq len low high show ?thesis by simp
qed

theorem removeOrderItem_keeps_others_witness:
  "(1::nat) < length (orderItems example_state)
   \<and> orderItems (removeOrderItem example_state 1) =
       [\<lparr>productId = str ''A'', quantity = num 2, unitPrice = num 10\<rparr>]
   \<and> length (orderItems (removeOrderItem example_state 1)) =
       length (orderItems example_state) - 1
   \<and> orderItems (removeOrderItem example_state 1) ! 0 = orderItems example_state ! 0
   \<and> orderItems (removeOrderItem example_state 0) =
       [\<lparr>productId = str ''B'', quantity = 1, unitPrice = num 5\<rparr>]
   \<and> orderItems (removeOrderItem example_state 0) ! 0 = orderItems example_state ! 1"
proof -
  have items: "orderItems example_state = example_items"
    by (simp add: example_state_def)
  have h1: "(1::nat) < length (orderItems example_state)"
    by (simp add: items example_items_def)
  have h0: "(0::nat) < length (orderItems example_state)"
    by (simp add: items example_items_def)
  from removeOrderItem_keeps_others [OF h1] removeOrderItem_keeps_others [OF h0] h1
  show ?thesis
    by (simp add: items example_items_def)
qed

subsection \<open>Arithmetic of the examples\<close>

lemma num_values:
  "num 1 = 1" "num 2 = Finite 1 1" "num 3 = Finite 3 0" "num 5 = Finite 5 0"
  "num 10 = Finite 5 1" "num 20 = Finite 5 2" "num 25 = Finite 25 0" "num 50 = Finite 25 1"
  "num 100 = Finite 25 2"
  by code_simp+

lemma example_products_of_numbers:
  "num 2 * num 10 = num 20" "1 * num 5 = num 5" "num 5 * num 10 = num 50"
  by code_simp+

lemma example_sums_of_numbers:
  "0 + num 20 = num 20" "num 20 + num 5 = num 25" "0 + num 50 = num 50"
  by code_simp+

lemma example_comparisons:
  "num 3 < num 5" "\<not> num 100 < num 5" "\<not> num 10 < 1"
  by code_simp+

lemma three_tenths:
  "num 3 * tenth = Finite 1351079888211149 (- 52)"
  "0 + Finite 1351079888211149 (- 52) = Finite 1351079888211149 (- 52)"
  by code_simp+

lemma doubles_of_the_examples:
  "is_double (num 3)" "is_double tenth" "is_double (Finite 1351079888211149 (- 52))"
  by code_simp+

subsection \<open>The total\<close>








text \<open>
  The total is not the exact sum of quantity times unit price: for one item with quantity
  3 at the price 0.1 the double product is rounded up, to 0.30000000000000004.
\<close>

theorem calculateTotal_exact_sum_counterexample:
  "run_actions example_products initial example_actions_tenths = Some example_state_tenths
   \<and> is_double (num 3) \<and> is_double tenth
   \<and> calculateTotal example_state_tenths = Finite 1351079888211149 (- 52)
   \<and> value_of (calculateTotal example_state_tenths) = 5404319552844596 / 2 ^ 54
   \<and> exact_total example_state_tenths = 10808639105689191 / 2 ^ 55
   \<and> value_of (calculateTotal example_state_tenths) \<noteq> exact_total example_state_tenths"
proof -
  have run: "run_actions example_products initial example_actions_tenths =
      Some example_state_tenths"
    by (simp add: example_actions_tenths_def example_state_tenths_def initial_def
        addOrderItem_def updateOrderItem_def)
  have total: "calculateTotal example_state_tenths = Finite 1351079888211149 (- 52)"
    by (simp add: calculateTotal_def example_state_tenths_def three_tenths)
  have v: "value_of (Finite 1351079888211149 (- 52)) = 5404319552844596 / 2 ^ 54"
    by (simp add: power_int_minus)
  have exact: "exact_total example_state_tenths = 10808639105689191 / 2 ^ 55"
    by (simp add: exact_total_def example_state_tenths_def num_values tenth_def
        power_int_minus)
  have "(5404319552844596 :: real) / 2 ^ 54 \<noteq> 10808639105689191 / 2 ^ 55"
    by simp
  with run total v exact doubles_of_the_examples(1,2) show ?thesis by simp
qed



subsection \<open>Updating an item\<close>

lemma find_first:
  "v \<in> f ` set xs \<Longrightarrow> \<exists>x. find (\<lambda>p. f p = v) xs = Some x \<and> f x = v \<and> x \<in> set xs"
  by (induction xs) auto

lemma distinct_same_key:
  "distinct (map f xs) \<Longrightarrow> x \<in> set xs \<Longrightarrow> y \<in> set xs \<Longrightarrow> f x = f y \<Longrightarrow> x = y"
  by (simp add: distinct_map inj_on_def)

text \<open>
  At a position of the list and with a value of the field's type, the update stays inside
  the model and keeps the number of items.
\<close>

lemma updateOrderItem_in_range:
  assumes "index < length (orderItems st)"
    and "(fld = ProductId \<and> (\<exists>v. val = String v)) \<or> (fld \<noteq> ProductId \<and> (\<exists>n. val = Number n))"
  shows "\<exists>st'. updateOrderItem products st index fld val = Some st'
           \<and> length (orderItems st') = length (orderItems st)"
  using assms
  by (cases fld; cases val)
     (auto simp add: updateOrderItem_def Let_def split: option.split)

lemma updateOrderItem_found:
  "find (\<lambda>p. id_product p = v) products = Some product \<Longrightarrow> index < length (orderItems st) \<Longrightarrow>
   updateOrderItem products st index ProductId (String v) =
     Some (st\<lparr>orderItems := (orderItems st)[index :=
        (orderItems st ! index)\<lparr>productId := v, unitPrice := price product\<rparr>]\<rparr>)"
  by (simp add: updateOrderItem_def Let_def)

lemma updateOrderItem_quantity:
  "index < length (orderItems st) \<Longrightarrow>
   updateOrderItem products st index Quantity (Number n) =
     Some (st\<lparr>orderItems := (orderItems st)[index := (orderItems st ! index)\<lparr>quantity := n\<rparr>]\<rparr>)"
  by (simp add: updateOrderItem_def Let_def)

lemma updateOrderItem_unitPrice:
  "index < length (orderItems st) \<Longrightarrow>
   updateOrderItem products st index UnitPrice (Number n) =
     Some (st\<lparr>orderItems := (orderItems st)[index := (orderItems st ! index)\<lparr>unitPrice := n\<rparr>]\<rparr>)"
  by (simp add: updateOrderItem_def Let_def)

text \<open>
  Claim C7. At a position of the list, selecting a product id that the catalog has sets the
  item's \<open>productId\<close> to that id and its \<open>unitPrice\<close> to the price of the product that
  \<open>find\<close> gives for it, whatever the price was before; every other item and the quantity
  stay. That product is the first one of the catalog with this id, hence the only one
  when the ids of the catalog are distinct. An update of the quantity or of the unit price
  with a number changes this one field of this one item.
\<close>

theorem updateOrderItem_sets_product_and_price:
  assumes "index < length (orderItems st)"
  shows "(v \<in> id_product ` set products \<longrightarrow>
           (\<exists>product. find (\<lambda>p. id_product p = v) products = Some product
              \<and> product \<in> set products \<and> id_product product = v
              \<and> (distinct (map id_product products) \<longrightarrow>
                   (\<forall>p\<in>set products. id_product p = v \<longrightarrow> p = product))
              \<and> updateOrderItem products st index ProductId (String v) =
                  Some (st\<lparr>orderItems := (orderItems st)[index :=
                     (orderItems st ! index)\<lparr>productId := v, unitPrice := price product\<rparr>]\<rparr>)))
       \<and> updateOrderItem products st index Quantity (Number n) =
           Some (st\<lparr>orderItems := (orderItems st)[index := (orderItems st ! index)\<lparr>quantity := n\<rparr>]\<rparr>)
       \<and> updateOrderItem products st index UnitPrice (Number n) =
           Some (st\<lparr>orderItems := (orderItems st)[index := (orderItems st ! index)\<lparr>unitPrice := n\<rparr>]\<rparr>)"
proof (intro conjI impI)
  assume "v \<in> id_product ` set products"
  from find_first [OF this] obtain product where
    f: "find (\<lambda>p. id_product p = v) products = Some product"
    and k: "id_product product = v" and m: "product \<in> set products" by blast
  have u: "distinct (map id_product products) \<longrightarrow>
             (\<forall>p\<in>set products. id_product p = v \<longrightarrow> p = product)"
  proof (intro impI ballI)
    fix p assume "distinct (map id_product products)" "p \<in> set products" "id_product p = v"
    with k m show "p = product"
      using distinct_same_key [of id_product products p product] by simp
  qed
  show "\<exists>product. find (\<lambda>p. id_product p = v) products = Some product
              \<and> product \<in> set products \<and> id_product product = v
              \<and> (distinct (map id_product products) \<longrightarrow>
                   (\<forall>p\<in>set products. id_product p = v \<longrightarrow> p = product))
              \<and> updateOrderItem products st index ProductId (String v) =
                  Some (st\<lparr>orderItems := (orderItems st)[index :=
                     (orderItems st ! index)\<lparr>productId := v, unitPrice := price product\<rparr>]\<rparr>)"
    using f k m u updateOrderItem_found [OF f assms] by (intro exI [of _ product] conjI)
next
  show "updateOrderItem products st index Quantity (Number n) =
           Some (st\<lparr>orderItems := (orderItems st)[index := (orderItems st ! index)\<lparr>quantity := n\<rparr>]\<rparr>)"
    by (rule updateOrderItem_quantity [OF assms])
next
  show "updateOrderItem products st index UnitPrice (Number n) =
           Some (st\<lparr>orderItems := (orderItems st)[index := (orderItems st ! index)\<lparr>unitPrice := n\<rparr>]\<rparr>)"
    by (rule updateOrderItem_unitPrice [OF assms])
qed

theorem updateOrderItem_sets_product_and_price_witness:
  "(0::nat) < length (orderItems example_state)
   \<and> str ''B'' \<in> id_product ` set example_products
   \<and> distinct (map id_product example_products)
   \<and> updateOrderItem example_products example_state 0 ProductId (String (str ''B'')) =
       Some (example_state\<lparr>orderItems :=
         [\<lparr>productId = str ''B'', quantity = num 2, unitPrice = num 5\<rparr>,
          \<lparr>productId = str ''B'', quantity = 1, unitPrice = num 5\<rparr>]\<rparr>)
   \<and> updateOrderItem example_products example_state 0 Quantity (Number (num 7)) =
       Some (example_state\<lparr>orderItems :=
         [\<lparr>productId = str ''A'', quantity = num 7, unitPrice = num 10\<rparr>,
          \<lparr>productId = str ''B'', quantity = 1, unitPrice = num 5\<rparr>]\<rparr>)
   \<and> updateOrderItem example_products example_state 0 UnitPrice (Number (num 7)) =
       Some (example_state\<lparr>orderItems :=
         [\<lparr>productId = str ''A'', quantity = num 2, unitPrice = num 7\<rparr>,
          \<lparr>productId = str ''B'', quantity = 1, unitPrice = num 5\<rparr>]\<rparr>)"
proof -
  have h: "(0::nat) < length (orderItems example_state)"
    by (simp add: example_state_def example_items_def)
  have present: "str ''B'' \<in> id_product ` set example_products"
    by (simp add: example_products_def)
  have dist: "distinct (map id_product example_products)"
    by (simp add: example_products_def str_def)
  have items: "orderItems example_state = example_items"
    by (simp add: example_state_def)
  have first: "find (\<lambda>p. id_product p = str ''B'') example_products =
      Some \<lparr>id_product = str ''B'', name = str ''Product B'', price = num 5, stock_quantity = num 10,
       sku = Some (str ''SKU-B'')\<rparr>"
    by (simp add: example_products_def str_def)
  note inst = updateOrderItem_sets_product_and_price
    [OF h, of "str ''B''" example_products "num 7"]
  from inst present first
  have p: "updateOrderItem example_products example_state 0 ProductId (String (str ''B'')) =
       Some (example_state\<lparr>orderItems :=
         [\<lparr>productId = str ''B'', quantity = num 2, unitPrice = num 5\<rparr>,
          \<lparr>productId = str ''B'', quantity = 1, unitPrice = num 5\<rparr>]\<rparr>)"
    by (auto simp add: items example_items_def)
  from inst have q: "updateOrderItem example_products example_state 0 Quantity (Number (num 7)) =
       Some (example_state\<lparr>orderItems :=
         [\<lparr>productId = str ''A'', quantity = num 7, unitPrice = num 10\<rparr>,
          \<lparr>productId = str ''B'', quantity = 1, unitPrice = num 5\<rparr>]\<rparr>)"
    by (simp add: items example_items_def)
  from inst have u: "updateOrderItem example_products example_state 0 UnitPrice (Number (num 7)) =
       Some (example_state\<lparr>orderItems :=
         [\<lparr>productId = str ''A'', quantity = num 2, unitPrice = num 7\<rparr>,
          \<lparr>productId = str ''B'', quantity = 1, unitPrice = num 5\<rparr>]\<rparr>)"
    by (simp add: items example_items_def)
  from h present dist p q u show ?thesis by simp
qed

text \<open>
  Claim C10. When no product of the catalog has the id \<open>v\<close>, selecting \<open>v\<close> for an item
  stores the state as it was, at every index: no product id, no price and no other item
  changes.
\<close>

theorem updateOrderItem_unknown_product:
  assumes "\<forall>p\<in>set products. id_product p \<noteq> v"
  shows "updateOrderItem products st index ProductId (String v) = Some st"
proof -
  from assms have "find (\<lambda>p. id_product p = v) products = None"
    by (simp add: find_None_iff)
  then show ?thesis by (simp add: updateOrderItem_def)
qed

theorem updateOrderItem_unknown_product_witness:
  "str ''C'' \<notin> set (map id_product example_products)
   \<and> updateOrderItem example_products example_state 1 ProductId (String (str ''C'')) =
       Some example_state
   \<and> updateOrderItem example_products example_state 7 ProductId (String (str ''C'')) =
       Some example_state"
proof -
  have absent: "str ''C'' \<notin> set (map id_product example_products)"
    by (simp add: example_products_def str_def)
  have h: "\<forall>p\<in>set example_products. id_product p \<noteq> str ''C''"
    by (simp add: example_products_def str_def)
  from updateOrderItem_unknown_product [OF h, of example_state 1]
       updateOrderItem_unknown_product [OF h, of example_state 7] absent
  show ?thesis by blast
qed

subsection \<open>Submitting without items\<close>

lemma handleSubmit_empty:
  "orderItems st = [] \<Longrightarrow> handleSubmit db st =
     [PreventDefault, SetIsSubmitting True, SetError None,
      SetError (Some (str ''Please add at least one item to the order'')),
      SetIsSubmitting False]"
  by (simp add: handleSubmit_def)

text \<open>
  Claim C2. With no item in the draft, \<open>handleSubmit\<close> performs the state setters only,
  whatever the store would answer: no insert is issued and no store client is created, the
  error message is \<open>Please add at least one item to the order\<close> and the submitting flag is
  false when the handler ends.
\<close>

theorem handleSubmit_no_items:
  assumes "orderItems st = []"
  shows "handleSubmit db st =
           [PreventDefault, SetIsSubmitting True, SetError None,
            SetError (Some (str ''Please add at least one item to the order'')),
            SetIsSubmitting False]
       \<and> filter is_store_call (handleSubmit db st) = []
       \<and> CreateClient \<notin> set (handleSubmit db st)
       \<and> error (state_after st (handleSubmit db st)) =
           Some (str ''Please add at least one item to the order'')
       \<and> isSubmitting (state_after st (handleSubmit db st)) = False"
  by (simp add: handleSubmit_empty [OF assms] state_after_def)

theorem handleSubmit_no_items_witness:
  "orderItems initial = []
   \<and> handleSubmit store_ok initial =
           [PreventDefault, SetIsSubmitting True, SetError None,
            SetError (Some (str ''Please add at least one item to the order'')),
            SetIsSubmitting False]
   \<and> filter is_store_call (handleSubmit store_ok initial) = []
   \<and> error (state_after initial (handleSubmit store_ok initial)) =
           Some (str ''Please add at least one item to the order'')
   \<and> isSubmitting (state_after initial (handleSubmit store_ok initial)) = False"
proof -
  have h: "orderItems initial = []" by (simp add: initial_def)
  from handleSubmit_no_items [OF h, of store_ok] h show ?thesis by blast
qed

subsection \<open>Trimming\<close>

lemma all_dropWhile: "(\<forall>x\<in>set (dropWhile P xs). P x) \<longleftrightarrow> (\<forall>x\<in>set xs. P x)"
  by (induction xs) auto

lemma trim_empty_iff: "trim s = [] \<longleftrightarrow> (\<forall>c\<in>set s. is_white_space c)"
  by (simp add: trim_def dropWhile_eq_Nil_conv all_dropWhile)

lemma trim_suffix:
  "dropWhile is_white_space s =
     trim s @ rev (takeWhile is_white_space (rev (dropWhile is_white_space s)))"
proof -
  let ?t = "dropWhile is_white_space s"
  have "trim s @ rev (takeWhile is_white_space (rev ?t)) =
      rev (takeWhile is_white_space (rev ?t) @ dropWhile is_white_space (rev ?t))"
    by (simp only: trim_def rev_append)
  also have "\<dots> = rev (rev ?t)" by (simp only: takeWhile_dropWhile_id)
  also have "\<dots> = ?t" by (simp only: rev_rev_ident)
  finally show ?thesis by (rule sym)
qed

lemma trim_decompose:
  "\<exists>a b. s = a @ trim s @ b \<and> (\<forall>c\<in>set a. is_white_space c) \<and> (\<forall>c\<in>set b. is_white_space c)"
proof -
  let ?t = "dropWhile is_white_space s"
  let ?a = "takeWhile is_white_space s"
  let ?b = "rev (takeWhile is_white_space (rev ?t))"
  have "s = ?a @ ?t" by simp
  also have "?t = trim s @ ?b" by (rule trim_suffix)
  finally have "s = ?a @ trim s @ ?b" .
  moreover have "\<forall>c\<in>set ?a. is_white_space c" by (auto dest: set_takeWhileD)
  moreover have "\<forall>c\<in>set ?b. is_white_space c" by (auto dest: set_takeWhileD)
  ultimately show ?thesis by blast
qed

lemma trim_ends:
  assumes "trim s \<noteq> []"
  shows "\<not> is_white_space (hd (trim s)) \<and> \<not> is_white_space (last (trim s))"
proof -
  let ?t = "dropWhile is_white_space s"
  let ?u = "dropWhile is_white_space (rev ?t)"
  from assms have u: "?u \<noteq> []" by (simp add: trim_def)
  then have l: "\<not> is_white_space (hd ?u)" by (rule hd_dropWhile)
  have "last (trim s) = hd ?u" using u by (simp add: trim_def last_rev)
  with l have last: "\<not> is_white_space (last (trim s))" by simp
  have t: "?t \<noteq> []"
  proof
    assume "?t = []"
    then have "?u = []" by (simp add: all_dropWhile)
    with u show False ..
  qed
  then have ht: "\<not> is_white_space (hd ?t)" by (rule hd_dropWhile)
  have "hd ?t = hd (trim s @ rev (takeWhile is_white_space (rev ?t)))"
    using trim_suffix [of s] by simp
  also have "\<dots> = hd (trim s)" using assms by (rule hd_append2)
  finally have "hd ?t = hd (trim s)" .
  with ht last show ?thesis by simp
qed

lemma trim_gift_wrap: "trim (str ''  gift wrap  '') = str ''gift wrap''"
  by (simp add: trim_def str_def is_white_space_def)

subsection \<open>The order payload\<close>

lemma order_payloads_handleSubmit:
  "orderItems st \<noteq> [] \<Longrightarrow> order_payloads (handleSubmit db st) = [orderData st]"
  by (simp add: handleSubmit_def try_block_def insert_items_step_def Let_def
      split: awaited.split response.split)

text \<open>
  Claim C3. With at least one item, \<open>handleSubmit\<close> hands exactly one object to the \<open>orders\<close>
  insert, whatever the store answers. Its \<open>customer_id\<close> is \<open>null\<close> for the walk-in value
  and the chosen id otherwise; its \<open>total_amount\<close> is \<open>calculateTotal\<close>; its \<open>status\<close> is
  \<open>pending\<close>; its \<open>payment_method\<close> is the chosen value, or \<open>null\<close> for the empty string; its
  \<open>notes\<close> are the trimmed notes, or \<open>null\<close> when nothing is left. The trimmed notes are the
  notes without a leading and a trailing run of white space, and neither begin nor end
  with white space; notes of white space only give \<open>null\<close>, and the notes
  \<open>  gift wrap  \<close> give \<open>gift wrap\<close>.
\<close>

theorem orderData_payload:
  assumes "orderItems st \<noteq> []"
  shows "order_payloads (handleSubmit db st) = [orderData st]
       \<and> customer_id (orderData st) =
           (if customerId st = str ''walk-in'' then None else Some (customerId st))
       \<and> total_amount (orderData st) = calculateTotal st
       \<and> status (orderData st) = str ''pending''
       \<and> payment_method (orderData st) =
           (if paymentMethod st = [] then None else Some (paymentMethod st))
       \<and> notes_col (orderData st) =
           (if trim (notes_state st) = [] then None else Some (trim (notes_state st)))
       \<and> (\<exists>a b. notes_state st = a @ trim (notes_state st) @ b
             \<and> (\<forall>c\<in>set a. is_white_space c) \<and> (\<forall>c\<in>set b. is_white_space c))
       \<and> (trim (notes_state st) \<noteq> [] \<longrightarrow>
             \<not> is_white_space (hd (trim (notes_state st)))
           \<and> \<not> is_white_space (last (trim (notes_state st))))
       \<and> ((\<forall>c\<in>set (notes_state st). is_white_space c) \<longrightarrow> notes_col (orderData st) = None)
       \<and> (notes_state st = str ''  gift wrap  '' \<longrightarrow>
             notes_col (orderData st) = Some (str ''gift wrap''))"
proof -
  have sent: "order_payloads (handleSubmit db st) = [orderData st]"
    using assms by (rule order_payloads_handleSubmit)
  have fields: "customer_id (orderData st) =
           (if customerId st = str ''walk-in'' then None else Some (customerId st))
       \<and> total_amount (orderData st) = calculateTotal st
       \<and> status (orderData st) = str ''pending''
       \<and> payment_method (orderData st) =
           (if paymentMethod st = [] then None else Some (paymentMethod st))
       \<and> notes_col (orderData st) =
           (if trim (notes_state st) = [] then None else Some (trim (notes_state st)))"
    by (simp add: orderData_def or_null_def)
  have blank: "(\<forall>c\<in>set (notes_state st). is_white_space c) \<longrightarrow> notes_col (orderData st) = None"
    by (simp add: orderData_def or_null_def trim_empty_iff)
  have gift: "notes_state st = str ''  gift wrap  '' \<longrightarrow>
             notes_col (orderData st) = Some (str ''gift wrap'')"
  proof
    assume "notes_state st = str ''  gift wrap  ''"
    then have "trim (notes_state st) = str ''gift wrap''" by (simp only: trim_gift_wrap)
    then show "notes_col (orderData st) = Some (str ''gift wrap'')"
      by (simp add: orderData_def or_null_def str_def)
  qed
  have ends: "trim (notes_state st) \<noteq> [] \<longrightarrow>
             \<not> is_white_space (hd (trim (notes_state st)))
           \<and> \<not> is_white_space (last (trim (notes_state st)))"
    using trim_ends [of "notes_state st"] by blast
  from sent fields trim_decompose [of "notes_state st"] ends blank gift
  show ?thesis by blast
qed

theorem orderData_payload_witness:
  "orderItems example_state \<noteq> []
   \<and> order_payloads (handleSubmit store_ok example_state) = [orderData example_state]
   \<and> orderData example_state =
       \<lparr>customer_id = None, total_amount = num 25, status = str ''pending'',
        payment_method = Some (str ''cash''), notes_col = None\<rparr>
   \<and> list_all is_white_space (notes_state (example_state\<lparr>notes_state := str ''   ''\<rparr>))
   \<and> notes_col (orderData (example_state\<lparr>notes_state := str ''   ''\<rparr>)) = None
   \<and> orderData (example_state\<lparr>customerId := str ''c42'', paymentMethod := [],
         notes_state := str ''  gift wrap  ''\<rparr>) =
       \<lparr>customer_id = Some (str ''c42''), total_amount = num 25, status = str ''pending'',
        payment_method = None, notes_col = Some (str ''gift wrap'')\<rparr>"
proof -
  let ?blank = "example_state\<lparr>notes_state := str ''   ''\<rparr>"
  let ?gift = "example_state\<lparr>customerId := str ''c42'', paymentMethod := [],
         notes_state := str ''  gift wrap  ''\<rparr>"
  have items: "orderItems example_state = example_items"
    by (simp add: example_state_def)
  have h: "orderItems example_state \<noteq> []"
    by (simp add: items example_items_def)
  have hb: "orderItems ?blank \<noteq> []" using h by simp
  have hg: "orderItems ?gift \<noteq> []" using h by simp
  have total: "calculateTotal example_state = num 25"
    by (simp add: calculateTotal_def items example_items_def
        example_products_of_numbers example_sums_of_numbers)
  have totalg: "calculateTotal ?gift = num 25"
    by (simp add: calculateTotal_def items example_items_def
        example_products_of_numbers example_sums_of_numbers)
  have ws: "\<forall>c\<in>set (notes_state ?blank). is_white_space c"
    by (simp add: str_def is_white_space_def)
  have plain: "customerId example_state = str ''walk-in''
      \<and> paymentMethod example_state = str ''cash'' \<and> trim (notes_state example_state) = []"
    by (simp add: example_state_def initial_def trim_def)
  have ne: "str ''c42'' \<noteq> str ''walk-in'' \<and> str ''cash'' \<noteq> []"
    by (simp add: str_def)
  from orderData_payload [OF h, of store_ok] total plain ne
  have a: "order_payloads (handleSubmit store_ok example_state) = [orderData example_state]
    \<and> orderData example_state =
       \<lparr>customer_id = None, total_amount = num 25, status = str ''pending'',
        payment_method = Some (str ''cash''), notes_col = None\<rparr>"
    by (cases "orderData example_state") simp
  from orderData_payload [OF hb, of store_ok] ws
  have b: "notes_col (orderData ?blank) = None" by blast
  from ws have ws': "list_all is_white_space (notes_state ?blank)"
    by (simp only: list_all_iff)
  from orderData_payload [OF hg, of store_ok] totalg ne
  have c: "orderData ?gift =
       \<lparr>customer_id = Some (str ''c42''), total_amount = num 25, status = str ''pending'',
        payment_method = None, notes_col = Some (str ''gift wrap'')\<rparr>"
    by (cases "orderData ?gift") simp
  from h a ws' b c show ?thesis by blast
qed

subsection \<open>The two inserts\<close>

lemma handleSubmit_order_fails:
  assumes "orderItems st \<noteq> []"
    and "insert_order db (orderData st) = Rejected e
       \<or> insert_order db (orderData st) = Fulfilled (Failure e)"
  shows "handleSubmit db st =
     [PreventDefault, SetIsSubmitting True, SetError None, CreateClient,
      InsertOrder (orderData st), SetError (Some (catch_message e)), SetIsSubmitting False]"
  using assms by (auto simp add: handleSubmit_def try_block_def Let_def)

lemma handleSubmit_order_created:
  assumes "orderItems st \<noteq> []"
    and "insert_order db (orderData st) = Fulfilled (Success order)"
  shows "handleSubmit db st =
     [PreventDefault, SetIsSubmitting True, SetError None, CreateClient,
      InsertOrder (orderData st)] @ insert_items_step db order st @ [SetIsSubmitting False]"
  using assms by (simp add: handleSubmit_def try_block_def Let_def)

lemma handleSubmit_items_fail:
  assumes "orderItems st \<noteq> []"
    and "insert_order db (orderData st) = Fulfilled (Success order)"
    and "insert_order_items db (orderItemsData order st) = Rejected e
       \<or> insert_order_items db (orderItemsData order st) = Fulfilled (Failure e)"
  shows "handleSubmit db st =
     [PreventDefault, SetIsSubmitting True, SetError None, CreateClient,
      InsertOrder (orderData st), InsertOrderItems (orderItemsData order st),
      SetError (Some (catch_message e)), SetIsSubmitting False]"
  using assms(3) handleSubmit_order_created [OF assms(1,2)]
  by (auto simp add: insert_items_step_def Let_def)

lemma item_payloads_order_created:
  assumes "orderItems st \<noteq> []"
    and "insert_order db (orderData st) = Fulfilled (Success order)"
  shows "item_payloads (handleSubmit db st) = [orderItemsData order st]"
  by (simp add: handleSubmit_order_created [OF assms] insert_items_step_def Let_def
      split: awaited.split response.split)

lemma catch_message_cases:
  "(\<forall>m. message e = Some m \<and> m \<noteq> [] \<longrightarrow> catch_message e = m)
   \<and> (message e = None \<or> message e = Some [] \<longrightarrow> catch_message e = str ''An error occurred'')"
  by (auto simp add: catch_message_def)

text \<open>
  Claim C4. When the \<open>orders\<close> insert gives the created order, \<open>handleSubmit\<close> hands one list
  to the \<open>order_items\<close> insert, in one call: one object per item of the draft, in the order
  of the items, with the id of the created order, the item's product id, quantity and unit
  price, and the item's own quantity times unit price as \<open>total_price\<close>. For two items
  of quantity 2 at price 10 and quantity 1 at price 5 the \<open>total_amount\<close> of the order is 25
  and the \<open>total_price\<close> values are 20 and 5.
\<close>

theorem orderItemsData_payload:
  assumes "orderItems st \<noteq> []"
    and "insert_order db (orderData st) = Fulfilled (Success order)"
  shows "item_payloads (handleSubmit db st) = [orderItemsData order st]
       \<and> length (orderItemsData order st) = length (orderItems st)
       \<and> (\<forall>i < length (orderItems st).
             order_id (orderItemsData order st ! i) = id_order order
           \<and> product_id (orderItemsData order st ! i) = productId (orderItems st ! i)
           \<and> quantity_col (orderItemsData order st ! i) = quantity (orderItems st ! i)
           \<and> unit_price (orderItemsData order st ! i) = unitPrice (orderItems st ! i)
           \<and> total_price (orderItemsData order st ! i) =
               quantity (orderItems st ! i) * unitPrice (orderItems st ! i))
       \<and> (map (\<lambda>item. (quantity item, unitPrice item)) (orderItems st) = [(num 2, num 10), (1, num 5)] \<longrightarrow>
             total_amount (orderData st) = num 25
           \<and> map total_price (orderItemsData order st) = [num 20, num 5])"
proof -
  have sent: "item_payloads (handleSubmit db st) = [orderItemsData order st]"
    using assms by (rule item_payloads_order_created)
  have len: "length (orderItemsData order st) = length (orderItems st)"
    by (simp add: orderItemsData_def)
  have each: "\<forall>i < length (orderItems st).
             order_id (orderItemsData order st ! i) = id_order order
           \<and> product_id (orderItemsData order st ! i) = productId (orderItems st ! i)
           \<and> quantity_col (orderItemsData order st ! i) = quantity (orderItems st ! i)
           \<and> unit_price (orderItemsData order st ! i) = unitPrice (orderItems st ! i)
           \<and> total_price (orderItemsData order st ! i) =
               quantity (orderItems st ! i) * unitPrice (orderItems st ! i)"
    by (simp add: orderItemsData_def)
  have ex: "map (\<lambda>item. (quantity item, unitPrice item)) (orderItems st) = [(num 2, num 10), (1, num 5)] \<longrightarrow>
             total_amount (orderData st) = num 25
           \<and> map total_price (orderItemsData order st) = [num 20, num 5]"
  proof
    assume m: "map (\<lambda>item. (quantity item, unitPrice item)) (orderItems st) = [(num 2, num 10), (1, num 5)]"
    then obtain x y where xy: "orderItems st = [x, y]"
      and x: "quantity x = num 2" "unitPrice x = num 10"
      and y: "quantity y = 1" "unitPrice y = num 5"
      by (auto simp add: map_eq_Cons_conv)
    show "total_amount (orderData st) = num 25
           \<and> map total_price (orderItemsData order st) = [num 20, num 5]"
      by (simp add: orderData_def calculateTotal_def orderItemsData_def xy x y
          example_products_of_numbers example_sums_of_numbers)
  qed
  from sent len each ex show ?thesis by blast
qed

theorem orderItemsData_payload_witness:
  "orderItems example_state \<noteq> []
   \<and> insert_order store_ok (orderData example_state) = Fulfilled (Success example_order)
   \<and> map (\<lambda>item. (quantity item, unitPrice item)) (orderItems example_state) = [(num 2, num 10), (1, num 5)]
   \<and> item_payloads (handleSubmit store_ok example_state) =
       [[\<lparr>order_id = str ''o1'', product_id = str ''A'', quantity_col = num 2, unit_price = num 10,
          total_price = num 20\<rparr>,
         \<lparr>order_id = str ''o1'', product_id = str ''B'', quantity_col = 1, unit_price = num 5,
          total_price = num 5\<rparr>]]
   \<and> total_amount (orderData example_state) = num 25
   \<and> map total_price (orderItemsData example_order example_state) = [num 20, num 5]"
proof -
  have items: "orderItems example_state = example_items"
    by (simp add: example_state_def)
  have h: "orderItems example_state \<noteq> []"
    by (simp add: items example_items_def)
  have ok: "insert_order store_ok (orderData example_state) = Fulfilled (Success example_order)"
    by (simp add: store_ok_def)
  have m: "map (\<lambda>item. (quantity item, unitPrice item)) (orderItems example_state) =
      [(num 2, num 10), (1, num 5)]"
    by (simp add: items example_items_def)
  have payload: "orderItemsData example_order example_state =
       [\<lparr>order_id = str ''o1'', product_id = str ''A'', quantity_col = num 2, unit_price = num 10,
          total_price = num 20\<rparr>,
         \<lparr>order_id = str ''o1'', product_id = str ''B'', quantity_col = 1, unit_price = num 5,
          total_price = num 5\<rparr>]"
    by (simp add: orderItemsData_def items example_items_def example_order_def
        example_products_of_numbers example_sums_of_numbers)
  from orderItemsData_payload [OF h ok] m
  have "item_payloads (handleSubmit store_ok example_state) =
          [orderItemsData example_order example_state]
      \<and> total_amount (orderData example_state) = num 25
      \<and> map total_price (orderItemsData example_order example_state) = [num 20, num 5]"
    by blast
  with h ok m payload show ?thesis by simp
qed

subsection \<open>A failing insert\<close>

text \<open>
  Claim C5. When the \<open>orders\<close> insert fails, by an error in its answer or by a rejected call,
  \<open>handleSubmit\<close> issues no \<open>order_items\<close> insert and no route transition; the error message
  is the message of the error, or \<open>An error occurred\<close> when the error has no message or an
  empty one; the submitting flag ends false; customer, payment method, notes and items
  are as before.
\<close>

theorem handleSubmit_order_insert_fails:
  assumes "orderItems st \<noteq> []"
    and "insert_order db (orderData st) = Rejected e
       \<or> insert_order db (orderData st) = Fulfilled (Failure e)"
  shows "handleSubmit db st =
           [PreventDefault, SetIsSubmitting True, SetError None, CreateClient,
            InsertOrder (orderData st), SetError (Some (catch_message e)),
            SetIsSubmitting False]
       \<and> item_payloads (handleSubmit db st) = []
       \<and> filter is_store_call (handleSubmit db st) = [InsertOrder (orderData st)]
       \<and> filter is_navigation (handleSubmit db st) = []
       \<and> error (state_after st (handleSubmit db st)) = Some (catch_message e)
       \<and> (\<forall>m. message e = Some m \<and> m \<noteq> [] \<longrightarrow> catch_message e = m)
       \<and> (message e = None \<or> message e = Some [] \<longrightarrow>
             catch_message e = str ''An error occurred'')
       \<and> isSubmitting (state_after st (handleSubmit db st)) = False
       \<and> customerId (state_after st (handleSubmit db st)) = customerId st
       \<and> paymentMethod (state_after st (handleSubmit db st)) = paymentMethod st
       \<and> notes_state (state_after st (handleSubmit db st)) = notes_state st
       \<and> orderItems (state_after st (handleSubmit db st)) = orderItems st"
proof -
  note tr = handleSubmit_order_fails [OF assms]
  have a: "item_payloads (handleSubmit db st) = []
       \<and> filter is_store_call (handleSubmit db st) = [InsertOrder (orderData st)]
       \<and> filter is_navigation (handleSubmit db st) = []"
    by (simp add: tr)
  have b: "error (state_after st (handleSubmit db st)) = Some (catch_message e)
       \<and> isSubmitting (state_after st (handleSubmit db st)) = False
       \<and> customerId (state_after st (handleSubmit db st)) = customerId st
       \<and> paymentMethod (state_after st (handleSubmit db st)) = paymentMethod st
       \<and> notes_state (state_after st (handleSubmit db st)) = notes_state st
       \<and> orderItems (state_after st (handleSubmit db st)) = orderItems st"
    by (simp add: tr state_after_def)
  from tr a b catch_message_cases [of e] show ?thesis by blast
qed

theorem handleSubmit_order_insert_fails_witness:
  "orderItems example_state \<noteq> []
   \<and> insert_order store_order_fails (orderData example_state) =
       Fulfilled (Failure \<lparr>message = Some (str ''permission denied'')\<rparr>)
   \<and> item_payloads (handleSubmit store_order_fails example_state) = []
   \<and> filter is_navigation (handleSubmit store_order_fails example_state) = []
   \<and> error (state_after example_state (handleSubmit store_order_fails example_state)) =
       Some (str ''permission denied'')
   \<and> isSubmitting (state_after example_state (handleSubmit store_order_fails example_state)) =
       False
   \<and> orderItems (state_after example_state (handleSubmit store_order_fails example_state)) =
       example_items"
proof -
  let ?e = "\<lparr>message = Some (str ''permission denied'')\<rparr>"
  have items: "orderItems example_state = example_items"
    by (simp add: example_state_def)
  have h: "orderItems example_state \<noteq> []"
    by (simp add: items example_items_def)
  have bad: "insert_order store_order_fails (orderData example_state) = Fulfilled (Failure ?e)"
    by (simp add: store_order_fails_def)
  then have either: "insert_order store_order_fails (orderData example_state) = Rejected ?e
      \<or> insert_order store_order_fails (orderData example_state) = Fulfilled (Failure ?e)" ..
  have msg: "message ?e = Some (str ''permission denied'') \<and> str ''permission denied'' \<noteq> []"
    by (simp add: str_def)
  note inst = handleSubmit_order_insert_fails [OF h either]
  from inst msg have cm: "catch_message ?e = str ''permission denied''" by blast
  from inst have parts:
    "item_payloads (handleSubmit store_order_fails example_state) = []
   \<and> filter is_navigation (handleSubmit store_order_fails example_state) = []
   \<and> error (state_after example_state (handleSubmit store_order_fails example_state)) =
       Some (catch_message ?e)
   \<and> isSubmitting (state_after example_state (handleSubmit store_order_fails example_state)) =
       False
   \<and> orderItems (state_after example_state (handleSubmit store_order_fails example_state)) =
       orderItems example_state"
    by blast
  from parts h bad show ?thesis by (simp add: cm items)
qed

text \<open>
  Claim C6. When the \<open>orders\<close> insert gives the created order and the \<open>order_items\<close> insert
  then fails, the two inserts are the only store calls of \<open>handleSubmit\<close>: nothing is issued
  after the failed insert but the error message and the reset of the submitting flag. The
  error message is that of the failed insert, set by the same setter; there is no route
  transition; the submitting flag ends false.
\<close>

theorem handleSubmit_item_insert_fails:
  assumes "orderItems st \<noteq> []"
    and "insert_order db (orderData st) = Fulfilled (Success order)"
    and "insert_order_items db (orderItemsData order st) = Rejected e
       \<or> insert_order_items db (orderItemsData order st) = Fulfilled (Failure e)"
  shows "handleSubmit db st =
           [PreventDefault, SetIsSubmitting True, SetError None, CreateClient,
            InsertOrder (orderData st), InsertOrderItems (orderItemsData order st),
            SetError (Some (catch_message e)), SetIsSubmitting False]
       \<and> filter is_store_call (handleSubmit db st) =
           [InsertOrder (orderData st), InsertOrderItems (orderItemsData order st)]
       \<and> filter is_navigation (handleSubmit db st) = []
       \<and> error (state_after st (handleSubmit db st)) = Some (catch_message e)
       \<and> (\<forall>m. message e = Some m \<and> m \<noteq> [] \<longrightarrow> catch_message e = m)
       \<and> (message e = None \<or> message e = Some [] \<longrightarrow>
             catch_message e = str ''An error occurred'')
       \<and> isSubmitting (state_after st (handleSubmit db st)) = False"
proof -
  note tr = handleSubmit_items_fail [OF assms]
  have a: "filter is_store_call (handleSubmit db st) =
           [InsertOrder (orderData st), InsertOrderItems (orderItemsData order st)]
       \<and> filter is_navigation (handleSubmit db st) = []"
    by (simp add: tr)
  have b: "error (state_after st (handleSubmit db st)) = Some (catch_message e)
       \<and> isSubmitting (state_after st (handleSubmit db st)) = False"
    by (simp add: tr state_after_def)
  from tr a b catch_message_cases [of e] show ?thesis by blast
qed

theorem handleSubmit_item_insert_fails_witness:
  "orderItems example_state \<noteq> []
   \<and> insert_order store_items_fail (orderData example_state) =
       Fulfilled (Success example_order)
   \<and> insert_order_items store_items_fail (orderItemsData example_order example_state) =
       Rejected \<lparr>message = None\<rparr>
   \<and> handleSubmit store_items_fail example_state =
       [PreventDefault, SetIsSubmitting True, SetError None, CreateClient,
        InsertOrder (orderData example_state),
        InsertOrderItems (orderItemsData example_order example_state),
        SetError (Some (str ''An error occurred'')), SetIsSubmitting False]
   \<and> filter is_navigation (handleSubmit store_items_fail example_state) = []
   \<and> error (state_after example_state (handleSubmit store_items_fail example_state)) =
       Some (str ''An error occurred'')
   \<and> isSubmitting (state_after example_state (handleSubmit store_items_fail example_state)) =
       False"
proof -
  let ?e = "\<lparr>message = None\<rparr>"
  have items: "orderItems example_state = example_items"
    by (simp add: example_state_def)
  have h: "orderItems example_state \<noteq> []"
    by (simp add: items example_items_def)
  have ok: "insert_order store_items_fail (orderData example_state) =
      Fulfilled (Success example_order)"
    by (simp add: store_items_fail_def)
  have bad: "insert_order_items store_items_fail (orderItemsData example_order example_state) =
      Rejected ?e"
    by (simp add: store_items_fail_def)
  then have either:
    "insert_order_items store_items_fail (orderItemsData example_order example_state) = Rejected ?e
     \<or> insert_order_items store_items_fail (orderItemsData example_order example_state) =
         Fulfilled (Failure ?e)" ..
  have msg: "message ?e = None" by simp
  note inst = handleSubmit_item_insert_fails [OF h ok either]
  from inst msg have cm: "catch_message ?e = str ''An error occurred''" by blast
  from inst have tr: "handleSubmit store_items_fail example_state =
       [PreventDefault, SetIsSubmitting True, SetError None, CreateClient,
        InsertOrder (orderData example_state),
        InsertOrderItems (orderItemsData example_order example_state),
        SetError (Some (catch_message ?e)), SetIsSubmitting False]"
    by blast
  from inst have parts:
    "filter is_navigation (handleSubmit store_items_fail example_state) = []
   \<and> error (state_after example_state (handleSubmit store_items_fail example_state)) =
       Some (catch_message ?e)
   \<and> isSubmitting (state_after example_state (handleSubmit store_items_fail example_state)) =
       False"
    by blast
  from tr have tr': "handleSubmit store_items_fail example_state =
       [PreventDefault, SetIsSubmitting True, SetError None, CreateClient,
        InsertOrder (orderData example_state),
        InsertOrderItems (orderItemsData example_order example_state),
        SetError (Some (str ''An error occurred'')), SetIsSubmitting False]"
    by (simp only: cm)
  from parts have parts':
    "filter is_navigation (handleSubmit store_items_fail example_state) = []
   \<and> error (state_after example_state (handleSubmit store_items_fail example_state)) =
       Some (str ''An error occurred'')
   \<and> isSubmitting (state_after example_state (handleSubmit store_items_fail example_state)) =
       False"
    by (simp only: cm)
  from h ok bad tr' parts' show ?thesis by blast
qed

subsection \<open>Stock and submission\<close>

lemma find_forget_stock:
  "map forget_stock ps = map forget_stock ps' \<Longrightarrow>
   map_option forget_stock (find (\<lambda>p. id_product p = v) ps) =
   map_option forget_stock (find (\<lambda>p. id_product p = v) ps')"
proof (induction ps arbitrary: ps')
  case Nil
  then show ?case by simp
next
  case (Cons p ps)
  then obtain q qs where ps': "ps' = q # qs" and pq: "forget_stock p = forget_stock q"
    and rest: "map forget_stock ps = map forget_stock qs"
    by (auto simp add: Cons_eq_map_conv)
  from pq have "id_product p = id_product q"
    by (metis Product.select_convs(1) Product.surjective Product.update_convs(4) forget_stock_def)
  with Cons.IH [OF rest] pq ps' show ?case by simp
qed

lemma forget_stock_fields:
  "forget_stock p = forget_stock q \<Longrightarrow> id_product p = id_product q \<and> price p = price q"
proof -
  assume eq: "forget_stock p = forget_stock q"
  have "id_product p = id_product (forget_stock p)" "price p = price (forget_stock p)"
    by (simp_all add: forget_stock_def)
  moreover have "id_product q = id_product (forget_stock q)" "price q = price (forget_stock q)"
    by (simp_all add: forget_stock_def)
  ultimately show ?thesis using eq by simp
qed

lemma updateOrderItem_forget_stock:
  assumes "map forget_stock ps = map forget_stock ps'"
  shows "updateOrderItem ps st index fld val = updateOrderItem ps' st index fld val"
proof (cases "\<exists>v. fld = ProductId \<and> val = String v")
  case True
  then obtain v where fv: "fld = ProductId" "val = String v" by blast
  note f = find_forget_stock [OF assms, of v]
  show ?thesis
  proof (cases "find (\<lambda>p. id_product p = v) ps")
    case None
    with f have "find (\<lambda>p. id_product p = v) ps' = None" by simp
    with None fv show ?thesis by (simp add: updateOrderItem_def)
  next
    case (Some p)
    with f obtain q where q: "find (\<lambda>p. id_product p = v) ps' = Some q"
      and pq: "forget_stock p = forget_stock q"
      by (cases "find (\<lambda>p. id_product p = v) ps'") auto
    from forget_stock_fields [OF pq] have "price p = price q" by simp
    with Some q fv show ?thesis by (simp add: updateOrderItem_def Let_def)
  qed
next
  case False
  then show ?thesis
    by (cases fld; cases val) (simp_all add: updateOrderItem_def)
qed

lemma run_actions_forget_stock:
  assumes "map forget_stock ps = map forget_stock ps'"
  shows "run_actions ps st acts = run_actions ps' st acts"
proof (induction acts arbitrary: st)
  case Nil
  show ?case by simp
next
  case (Cons a acts)
  have "apply_action ps st a = apply_action ps' st a"
    by (cases a) (simp_all add: updateOrderItem_forget_stock [OF assms])
  with Cons.IH show ?case by (simp split: option.split)
qed

text \<open>
  Claim C9. The stock of the products has no part in a submission. Two catalogs that
  differ in stock quantities only lead every sequence of item operations to the same
  state, and submitting after it performs the same actions: the same guard, payloads,
  inserts and route transition. A draft with an item that asks for more than the stock
  of its product is submitted like any other draft with items: the order payload is
  issued, and the submit button is disabled only while a submission runs. The stock
  notice of an item is rendered exactly when the catalog has a product for the item whose
  stock is less than the item's quantity.
\<close>

theorem stock_does_not_block_submit:
  assumes "map forget_stock products = map forget_stock products'"
  shows "run_actions products st acts = run_actions products' st acts
       \<and> submit_after products db acts = submit_after products' db acts
       \<and> ((\<exists>item\<in>set (orderItems st). stock_warning products item) \<longrightarrow>
             order_payloads (handleSubmit db st) = [orderData st]
           \<and> (submit_disabled st \<longleftrightarrow> isSubmitting st))
       \<and> (stock_warning products item \<longleftrightarrow>
             (\<exists>p. find (\<lambda>p. id_product p = productId item) products = Some p
                  \<and> stock_quantity p < quantity item))"
proof -
  have run: "run_actions products st acts = run_actions products' st acts"
    using assms by (rule run_actions_forget_stock)
  have sub: "submit_after products db acts = submit_after products' db acts"
    by (simp add: submit_after_def run_actions_forget_stock [OF assms])
  have go: "(\<exists>item\<in>set (orderItems st). stock_warning products item) \<longrightarrow>
             order_payloads (handleSubmit db st) = [orderData st]
           \<and> (submit_disabled st \<longleftrightarrow> isSubmitting st)"
  proof
    assume "\<exists>item\<in>set (orderItems st). stock_warning products item"
    then have ne: "orderItems st \<noteq> []" by auto
    then show "order_payloads (handleSubmit db st) = [orderData st]
           \<and> (submit_disabled st \<longleftrightarrow> isSubmitting st)"
      by (simp add: order_payloads_handleSubmit submit_disabled_def)
  qed
  have warn: "stock_warning products item \<longleftrightarrow>
             (\<exists>p. find (\<lambda>p. id_product p = productId item) products = Some p
                  \<and> stock_quantity p < quantity item)"
    by (simp add: stock_warning_def split: option.split)
  from run sub go warn show ?thesis by blast
qed

theorem stock_does_not_block_submit_witness:
  "map forget_stock example_products = map forget_stock example_products_restocked
   \<and> run_actions example_products initial example_actions_excess =
       Some (initial\<lparr>orderItems := [example_item_excess]\<rparr>)
   \<and> stock_warning example_products example_item_excess
   \<and> \<not> stock_warning example_products_restocked example_item_excess
   \<and> submit_after example_products_restocked store_ok example_actions_excess =
       submit_after example_products store_ok example_actions_excess
   \<and> submit_after example_products store_ok example_actions_excess =
       Some [PreventDefault, SetIsSubmitting True, SetError None, CreateClient,
             InsertOrder \<lparr>customer_id = None, total_amount = num 50, status = str ''pending'',
               payment_method = Some (str ''cash''), notes_col = None\<rparr>,
             InsertOrderItems [\<lparr>order_id = str ''o1'', product_id = str ''A'',
               quantity_col = num 5, unit_price = num 10, total_price = num 50\<rparr>],
             RouterPush (str ''/dashboard/orders/o1''), SetIsSubmitting False]
   \<and> \<not> submit_disabled (initial\<lparr>orderItems := [example_item_excess]\<rparr>)"
proof -
  let ?st = "initial\<lparr>orderItems := [example_item_excess]\<rparr>"
  have h: "map forget_stock example_products = map forget_stock example_products_restocked"
    by (simp add: example_products_def example_products_restocked_def forget_stock_def)
  have run: "run_actions example_products initial example_actions_excess = Some ?st"
    by (simp add: example_actions_excess_def example_products_def example_item_excess_def
        initial_def addOrderItem_def updateOrderItem_def str_def)
  have w: "stock_warning example_products example_item_excess"
    by (simp add: stock_warning_def example_products_def example_item_excess_def str_def
        example_comparisons)
  have nw: "\<not> stock_warning example_products_restocked example_item_excess"
    by (simp add: stock_warning_def example_products_def example_products_restocked_def
        example_item_excess_def str_def example_comparisons)
  have idle: "\<not> isSubmitting ?st" by (simp add: initial_def)
  have "orderData ?st = \<lparr>customer_id = None, total_amount = num 50, status = str ''pending'',
               payment_method = Some (str ''cash''), notes_col = None\<rparr>"
    by (simp add: orderData_def initial_def calculateTotal_def example_item_excess_def
        or_null_def trim_def str_def example_products_of_numbers example_sums_of_numbers)
  moreover have "orderItemsData example_order ?st = [\<lparr>order_id = str ''o1'',
      product_id = str ''A'', quantity_col = num 5, unit_price = num 10, total_price = num 50\<rparr>]"
    by (simp add: orderItemsData_def example_order_def example_item_excess_def
        example_products_of_numbers example_sums_of_numbers)
  ultimately have tr: "handleSubmit store_ok ?st =
       [PreventDefault, SetIsSubmitting True, SetError None, CreateClient,
             InsertOrder \<lparr>customer_id = None, total_amount = num 50, status = str ''pending'',
               payment_method = Some (str ''cash''), notes_col = None\<rparr>,
             InsertOrderItems [\<lparr>order_id = str ''o1'', product_id = str ''A'',
               quantity_col = num 5, unit_price = num 10, total_price = num 50\<rparr>],
             RouterPush (str ''/dashboard/orders/o1''), SetIsSubmitting False]"
    by (simp add: handleSubmit_def try_block_def insert_items_step_def store_ok_def
        example_order_def str_def)
  from run tr have sub: "submit_after example_products store_ok example_actions_excess =
       Some [PreventDefault, SetIsSubmitting True, SetError None, CreateClient,
             InsertOrder \<lparr>customer_id = None, total_amount = num 50, status = str ''pending'',
               payment_method = Some (str ''cash''), notes_col = None\<rparr>,
             InsertOrderItems [\<lparr>order_id = str ''o1'', product_id = str ''A'',
               quantity_col = num 5, unit_price = num 10, total_price = num 50\<rparr>],
             RouterPush (str ''/dashboard/orders/o1''), SetIsSubmitting False]"
    by (simp add: submit_after_def)
  have ex: "\<exists>item\<in>set (orderItems ?st). stock_warning example_products item"
    using w by simp
  note inst = stock_does_not_block_submit [OF h, of ?st example_actions_excess store_ok
      example_item_excess]
  from inst have same: "submit_after example_products_restocked store_ok example_actions_excess =
       submit_after example_products store_ok example_actions_excess"
    by simp
  from inst ex idle have en: "\<not> submit_disabled ?st" by blast
  from h run w nw same sub en show ?thesis by blast
qed

end
